theory Spec2Isabelle
  imports Complex_Main
begin

chapter \<open>The notebook as functions\<close>

text \<open>
  The repository is one notebook, \<^verbatim>\<open>01-PEFT_QLora-PB2.ipynb\<close>, which fine-tunes a
  quantized language model with low-rank adapters. Quantization, adapter injection,
  training and persistence are calls into libraries; the notebook's own code is the
  function that counts trainable parameters, the choice of the dataset slices, the
  generation settings and the inference calls. These are modelled below in the order of
  the cells.
\<close>

section \<open>Exceptions\<close>

text \<open>The exceptions the modelled code can raise. A function that can raise returns a sum.\<close>

datatype error = IndexError | ValueError | ZeroDivisionError

section \<open>Counting trainable parameters\<close>

text \<open>
  \<^verbatim>\<open>
  def print_trainable_parameters(model):
      trainable_params = 0
      all_param = 0
      for _, param in model.named_parameters():
          all_param += param.numel()
          if param.requires_grad:
              trainable_params += param.numel()
      print(
          f"trainable params: {trainable_params} || all params: {all_param} || trainable%: {100 * trainable_params / all_param}"
      )
  \<close>
  The function sees of a parameter its number of elements and its \<^verbatim>\<open>requires_grad\<close>
  flag. The loop carries the two counters; the printed line is the triple of the two
  counters and the percentage, whose division raises \<^verbatim>\<open>ZeroDivisionError\<close> for a model
  without parameters. The percentage is the exact quotient, of which the source prints
  the closest double.
\<close>

record parameter =
  numel :: nat
  requires_grad :: bool

fun count_parameters :: "parameter list \<Rightarrow> nat \<Rightarrow> nat \<Rightarrow> nat \<times> nat" where
  "count_parameters [] trainable_params all_param = (trainable_params, all_param)"
| "count_parameters (param # rest) trainable_params all_param =
    count_parameters rest
      (if requires_grad param then trainable_params + numel param else trainable_params)
      (all_param + numel param)"

definition print_trainable_parameters :: "parameter list \<Rightarrow> error + nat \<times> nat \<times> real" where
  "print_trainable_parameters named_parameters =
    (case count_parameters named_parameters 0 0 of
       (trainable_params, all_param) \<Rightarrow>
         if all_param = 0 then Inl ZeroDivisionError
         else Inr (trainable_params, all_param,
                   100 * real trainable_params / real all_param))"

section \<open>Dataset split\<close>

text \<open>
  The notebook asks the dataset provider for two slices of the split \<^verbatim>\<open>train\<close>:
  \<^verbatim>\<open>
  dataset_split = [
      datasets.ReadInstruction('train', to=10, unit='%'),
      datasets.ReadInstruction('train', from_=-5, unit='%')
  ]

  train_dataset, eval_dataset = load_dataset("medalpaca/medical_meadow_medical_flashcards", split=dataset_split)
  \<close>
  A read instruction is a record of the split's name, the two optional boundaries
  (the keywords \<^verbatim>\<open>from_\<close> and \<^verbatim>\<open>to\<close>) and the unit of the boundaries. The two
  elements of the list are named \<open>train_instruction\<close> and \<open>eval_instruction\<close> after the
  variables their slices are bound to.
\<close>

datatype slice_unit = Percent | Abs

record ReadInstruction =
  splitname :: string
  ri_from :: "int option"
  ri_to :: "int option"
  ri_unit :: slice_unit

definition train_instruction :: ReadInstruction where
  "train_instruction =
    \<lparr>splitname = ''train'', ri_from = None, ri_to = Some 10, ri_unit = Percent\<rparr>"

definition eval_instruction :: ReadInstruction where
  "eval_instruction =
    \<lparr>splitname = ''train'', ri_from = Some (- 5), ri_to = None, ri_unit = Percent\<rparr>"

definition dataset_split :: "ReadInstruction list" where
  "dataset_split = [train_instruction, eval_instruction]"

text \<open>
  The notebook leaves the meaning of an instruction to the \<^verbatim>\<open>datasets\<close> library it
  installs; that code is the library's and not part of the repository. An instruction
  built without a \<^verbatim>\<open>rounding\<close> argument has the rounding \<^verbatim>\<open>closest\<close>, and the library's
  reader resolves it to absolute indices by this rule, which the model follows:
  \<^verbatim>\<open>
  def _pct_to_abs_closest(boundary, num_examples):
      return int(round(boundary * num_examples / 100.0))

  def _rel_to_abs_instr(rel_instr, name2len):
      pct_to_abs = _pct_to_abs_closest if rel_instr.rounding == "closest" else _pct_to_abs_pct1
      split = rel_instr.splitname
      if split not in name2len:
          raise ValueError(...)
      num_examples = name2len[split]
      from_ = rel_instr.from_
      to = rel_instr.to
      if rel_instr.unit == "%":
          from_ = 0 if from_ is None else pct_to_abs(from_, num_examples)
          to = num_examples if to is None else pct_to_abs(to, num_examples)
      else:
          from_ = 0 if from_ is None else from_
          to = num_examples if to is None else to
      if from_ < 0:
          from_ = max(num_examples + from_, 0)
      if to < 0:
          to = max(num_examples + to, 0)
      from_ = min(from_, num_examples)
      to = min(to, num_examples)
      return _AbsoluteInstruction(split, from_, to)
  \<close>
  Python's \<^verbatim>\<open>round\<close> rounds a tie to the even neighbour. \<open>round_half_even a b\<close> is
  \<^verbatim>\<open>round(a / b)\<close> for a positive \<open>b\<close>, computed on integers; the quotient of the source
  is a double, which rounds to the same integer as long as \<open>a\<close> stays below \<open>2 ^ 53\<close>
  in absolute value: the product is then an exact double, a tie is an exact double, and
  every other quotient lies at least one hundredth away from a tie, further than the
  error of the division. The statements about the split therefore assume a split of
  fewer than \<open>2 ^ 48\<close> records, for which ten times the size is below that bound.
\<close>

definition round_half_even :: "int \<Rightarrow> int \<Rightarrow> int" where
  "round_half_even a b =
    (let q = a div b; r = a mod b
     in if 2 * r < b then q else if b < 2 * r then q + 1 else if even q then q else q + 1)"

definition pct_to_abs_closest :: "int \<Rightarrow> int \<Rightarrow> int" where
  "pct_to_abs_closest boundary num_examples = round_half_even (boundary * num_examples) 100"

definition rel_to_abs_instr :: "ReadInstruction \<Rightarrow> (string \<rightharpoonup> nat) \<Rightarrow> error + int \<times> int" where
  "rel_to_abs_instr rel_instr name2len =
    (case name2len (splitname rel_instr) of
       None \<Rightarrow> Inl ValueError
     | Some n \<Rightarrow>
        (let num_examples = int n;
             from0 = (case ri_from rel_instr of
                        None \<Rightarrow> 0
                      | Some f \<Rightarrow> (case ri_unit rel_instr of
                                    Percent \<Rightarrow> pct_to_abs_closest f num_examples
                                  | Abs \<Rightarrow> f));
             to0 = (case ri_to rel_instr of
                      None \<Rightarrow> num_examples
                    | Some t \<Rightarrow> (case ri_unit rel_instr of
                                  Percent \<Rightarrow> pct_to_abs_closest t num_examples
                                | Abs \<Rightarrow> t));
             from1 = (if from0 < 0 then max (num_examples + from0) 0 else from0);
             to1 = (if to0 < 0 then max (num_examples + to0) 0 else to0)
         in Inr (min from1 num_examples, min to1 num_examples)))"

text \<open>
  Reading one instruction: the rows of the split from the absolute index \<open>from\<close> up to,
  not including, \<open>to\<close>, in the split's order. A dataset is a map from split names to the
  rows of each split. The library's reader leaves out a file from which it would take no
  row and refuses an instruction that is left with no file:
  \<^verbatim>\<open>
  take = to - from_
  if take == 0:
      continue
  file_instructions.append({"filename": filename, "skip": from_, "take": take})
  ...
  files = self.get_file_instructions(name, instructions, split_infos)
  if not files:
      msg = f'Instruction "{instructions}" corresponds to no data!'
      raise ValueError(msg)
  \<close>
  So a slice without rows raises \<^verbatim>\<open>ValueError\<close>. The two instructions of the notebook
  never resolve to an upper boundary below the lower one (lemma
  \<open>notebook_instructions_ordered\<close>); the model raises for such a slice as well.
\<close>

definition read_instruction :: "(string \<rightharpoonup> 'r list) \<Rightarrow> ReadInstruction \<Rightarrow> error + 'r list" where
  "read_instruction splits rel_instr =
    (case rel_to_abs_instr rel_instr (map_option length \<circ> splits) of
       Inl e \<Rightarrow> Inl e
     | Inr (from_abs, to_abs) \<Rightarrow>
        (case splits (splitname rel_instr) of
           None \<Rightarrow> Inl ValueError
         | Some rows \<Rightarrow>
            if to_abs \<le> from_abs then Inl ValueError
            else Inr (take (nat (to_abs - from_abs)) (drop (nat from_abs) rows))))"

fun load_dataset :: "(string \<rightharpoonup> 'r list) \<Rightarrow> ReadInstruction list \<Rightarrow> error + 'r list list" where
  "load_dataset splits [] = Inr []"
| "load_dataset splits (rel_instr # rest) =
    (case read_instruction splits rel_instr of
       Inl e \<Rightarrow> Inl e
     | Inr rows \<Rightarrow>
        (case load_dataset splits rest of
           Inl e \<Rightarrow> Inl e
         | Inr more_rows \<Rightarrow> Inr (rows # more_rows)))"

text \<open>The cell: the two datasets, unpacked from the list the loader returns.\<close>

definition dataset_cell :: "(string \<rightharpoonup> 'r list) \<Rightarrow> error + 'r list \<times> 'r list" where
  "dataset_cell splits =
    (case load_dataset splits dataset_split of
       Inl e \<Rightarrow> Inl e
     | Inr [train_dataset, eval_dataset] \<Rightarrow> Inr (train_dataset, eval_dataset)
     | Inr _ \<Rightarrow> Inl ValueError)"

section \<open>Inference configuration cells\<close>

text \<open>
  The notebook \<^verbatim>\<open>01-PEFT_QLora-PB2.ipynb\<close> configures text generation in two cells,
  one for the fine-tuned model and one for the original model:
  \<^verbatim>\<open>
  generation_config = model.generation_config
  generation_config.max_new_tokens = 50
  generation_config_temperature = 0.7
  generation_config.top_p = 0.7
  generation_config.num_return_sequences = 1
  generation_config.pad_token_id = tokenizer.eos_token_id
  generation_config_eod_token_id = tokenizer.eos_token_id
  generation_config.repetition_penalty = 1.1
  \<close>
  The first line binds a name to the object the model already holds, so the attribute
  assignments mutate the model's own configuration object. Objects therefore live in a
  store indexed by addresses, and a variable that refers to a configuration holds its
  address.

  A generation configuration is a record of the fields the notebook and the
  specification name; every further attribute of the library's class sits in the
  record's extension part. Python's \<^verbatim>\<open>None\<close> is \<open>None\<close>; a decimal literal such as
  \<^verbatim>\<open>0.7\<close> is the real number it denotes.
\<close>

type_synonym addr = nat

record GenerationConfig =
  max_new_tokens :: "int option"
  temperature :: real
  top_p :: real
  repetition_penalty :: real
  num_return_sequences :: int
  eos_token_id :: "int option"
  pad_token_id :: "int option"

text \<open>
  The global namespace of the notebook at the point of the two cells. A global that is
  not bound yet is \<open>None\<close>; \<open>generation_config_eod_token_id\<close> is bound to a value that
  can itself be \<^verbatim>\<open>None\<close>, hence the nested option.
\<close>

record 'm namespace =
  store :: "addr \<Rightarrow> 'm GenerationConfig_scheme"
  model_generation_config :: addr
  orig_model_generation_config :: addr
  tokenizer_eos_token_id :: "int option"
  generation_config :: "addr option"
  generation_config_temperature :: "real option"
  generation_config_eod_token_id :: "int option option"
  orig_generation_config :: "addr option"
  orig_generation_config_temperature :: "real option"
  orig_generation_config_eod_token_id :: "int option option"

text \<open>\<^verbatim>\<open>obj.field = v\<close> for the object at address \<open>a\<close>: \<open>upd\<close> is the field update.\<close>

definition setattr ::
  "addr \<Rightarrow> ('m GenerationConfig_scheme \<Rightarrow> 'm GenerationConfig_scheme) \<Rightarrow>
   'm namespace \<Rightarrow> 'm namespace" where
  "setattr a upd s = s\<lparr>store := (store s)(a := upd (store s a))\<rparr>"

text \<open>The cell for the fine-tuned model, one binding per source line.\<close>

definition generation_config_cell :: "'m namespace \<Rightarrow> 'm namespace" where
  "generation_config_cell s0 =
    (let a = model_generation_config s0;
         s1 = s0\<lparr>generation_config := Some a\<rparr>;
         s2 = setattr a (\<lambda>g. g\<lparr>max_new_tokens := Some 50\<rparr>) s1;
         s3 = s2\<lparr>generation_config_temperature := Some (7 / 10)\<rparr>;
         s4 = setattr a (\<lambda>g. g\<lparr>top_p := 7 / 10\<rparr>) s3;
         s5 = setattr a (\<lambda>g. g\<lparr>num_return_sequences := 1\<rparr>) s4;
         s6 = setattr a (\<lambda>g. g\<lparr>pad_token_id := tokenizer_eos_token_id s5\<rparr>) s5;
         s7 = s6\<lparr>generation_config_eod_token_id := Some (tokenizer_eos_token_id s6)\<rparr>
     in setattr a (\<lambda>g. g\<lparr>repetition_penalty := 11 / 10\<rparr>) s7)"

text \<open>
  The cell for the original model. It reads \<^verbatim>\<open>tokenizer.eos_token_id\<close>, the tokenizer
  of the fine-tuned model, as the source does.
\<close>

definition orig_generation_config_cell :: "'m namespace \<Rightarrow> 'm namespace" where
  "orig_generation_config_cell s0 =
    (let a = orig_model_generation_config s0;
         s1 = s0\<lparr>orig_generation_config := Some a\<rparr>;
         s2 = setattr a (\<lambda>g. g\<lparr>max_new_tokens := Some 50\<rparr>) s1;
         s3 = s2\<lparr>orig_generation_config_temperature := Some (7 / 10)\<rparr>;
         s4 = setattr a (\<lambda>g. g\<lparr>top_p := 7 / 10\<rparr>) s3;
         s5 = setattr a (\<lambda>g. g\<lparr>num_return_sequences := 1\<rparr>) s4;
         s6 = setattr a (\<lambda>g. g\<lparr>pad_token_id := tokenizer_eos_token_id s5\<rparr>) s5;
         s7 = s6\<lparr>orig_generation_config_eod_token_id := Some (tokenizer_eos_token_id s6)\<rparr>
     in setattr a (\<lambda>g. g\<lparr>repetition_penalty := 11 / 10\<rparr>) s7)"

section \<open>Inference calls\<close>

text \<open>
  Two places of the notebook call \<^verbatim>\<open>model.generate\<close>: the prompt cell and the function
  \<^verbatim>\<open>generate_response\<close>. The tokenizer, the model's \<^verbatim>\<open>generate\<close> and the tokenizer's
  \<^verbatim>\<open>decode\<close> belong to the libraries, so they are parameters here. What the notebook
  decides is which tensor it passes under which keyword.

  A tensor of token ids or of mask bits is a list of rows. The tokenizer returns an
  encoding with the two tensors \<^verbatim>\<open>input_ids\<close> and \<^verbatim>\<open>attention_mask\<close>; moving it to the
  device with \<^verbatim>\<open>.to(DEVICE)\<close> leaves the values as they are. The keyword arguments of one
  call of \<^verbatim>\<open>generate\<close> form a record, a keyword the call does not pass being \<open>None\<close>.
\<close>

type_synonym tensor = "int list list"

record BatchEncoding =
  input_ids :: tensor
  attention_mask :: tensor

record 'g generate_kwargs =
  kw_input_ids :: "tensor option"
  kw_attention_mask :: "tensor option"
  kw_generation_config :: "'g option"

text \<open>
  \<^verbatim>\<open>str.strip()\<close> removes leading and trailing whitespace. Characters are code points
  below 256; the whitespace among them is tab to carriage return, the four separators
  28 to 31, the space, and the code points 133 and 160.
\<close>

definition isspace :: "char \<Rightarrow> bool" where
  "isspace c = ((of_char c :: nat) \<in> set [9, 10, 11, 12, 13, 28, 29, 30, 31, 32, 133, 160])"

definition strip :: "string \<Rightarrow> string" where
  "strip s = rev (dropWhile isspace (rev (dropWhile isspace s)))"

text \<open>\<^verbatim>\<open>s.find(sub)\<close>: the lowest index where \<open>sub\<close> occurs in \<open>s\<close>, or \<open>-1\<close>.\<close>

fun find_from :: "nat \<Rightarrow> string \<Rightarrow> string \<Rightarrow> int" where
  "find_from i sub [] = (if sub = [] then int i else - 1)"
| "find_from i sub (c # cs) =
     (if take (length sub) (c # cs) = sub then int i else find_from (Suc i) sub cs)"

definition find_str :: "string \<Rightarrow> string \<Rightarrow> int" where
  "find_str s sub = find_from 0 sub s"

text \<open>\<^verbatim>\<open>s[k:]\<close>: a negative \<open>k\<close> counts from the end of the string.\<close>

definition slice_from :: "int \<Rightarrow> string \<Rightarrow> string" where
  "slice_from k s = (if 0 \<le> k then drop (nat k) s else drop (length s - nat (- k)) s)"

text \<open>
  The prompt cell:
  \<^verbatim>\<open>
  prompt = f"""
  Answer this question truthfully:
  What are the treatments for ARDS?
  ---
  Answer:
  """.strip()

  encoding = tokenizer(prompt, return_tensors="pt").to(DEVICE)
  with torch.inference_mode():
      outputs = model.generate(
          input_ids=encoding.attention_mask,
          generation_config=generation_config,
      )
  \<close>
\<close>

definition prompt :: string where
  "prompt = strip (CHR 0x0A # ''Answer this question truthfully:'' @
                   CHR 0x0A # ''What are the treatments for ARDS?'' @
                   CHR 0x0A # ''---'' @
                   CHR 0x0A # ''Answer:'' @ [CHR 0x0A])"

definition prompt_cell_kwargs ::
  "(string \<Rightarrow> BatchEncoding) \<Rightarrow> 'g \<Rightarrow> 'g generate_kwargs" where
  "prompt_cell_kwargs tokenizer gen_config =
    (let encoding = tokenizer prompt
     in \<lparr>kw_input_ids = Some (attention_mask encoding),
         kw_attention_mask = None,
         kw_generation_config = Some gen_config\<rparr>)"

definition prompt_cell ::
  "('g generate_kwargs \<Rightarrow> tensor) \<Rightarrow> (string \<Rightarrow> BatchEncoding) \<Rightarrow> 'g \<Rightarrow> tensor" where
  "prompt_cell generate tokenizer gen_config = generate (prompt_cell_kwargs tokenizer gen_config)"

text \<open>
  The function \<^verbatim>\<open>generate_response(question, model)\<close>. Its prompt is a string literal
  inside the function body, so every line after the first carries the four spaces of the
  body's indentation:
  \<^verbatim>\<open>
  def generate_response(question, model):
      prompt = f"""Answer this question truthfully:
      {question}
      ---
      Answer:
      """.strip()
      encoding = tokenizer(prompt, return_tensors="pt").to(DEVICE)
      with torch.inference_mode():
          outputs = model.generate(
              input_ids=encoding.input_ids,
              attention_mask=encoding.attention_mask,
              generation_config=generation_config,
          )
      response = tokenizer.decode(outputs[0],skip_special_tokens=True)

      answer_start = 'Answer:'
      response_start = response.find(answer_start)
      return response[response_start + len(answer_start):].strip()
  \<close>
  The globals \<^verbatim>\<open>tokenizer\<close> and \<^verbatim>\<open>generation_config\<close> it reads are arguments of the model
  function. \<^verbatim>\<open>outputs[0]\<close> raises \<^verbatim>\<open>IndexError\<close> on a tensor with no row.
\<close>

definition response_prompt :: "string \<Rightarrow> string" where
  "response_prompt question =
    strip (''Answer this question truthfully:'' @
           CHR 0x0A # ''    '' @ question @
           CHR 0x0A # ''    ---'' @
           CHR 0x0A # ''    Answer:'' @
           CHR 0x0A # ''    '')"

definition generate_response_kwargs ::
  "(string \<Rightarrow> BatchEncoding) \<Rightarrow> 'g \<Rightarrow> string \<Rightarrow> 'g generate_kwargs" where
  "generate_response_kwargs tokenizer gen_config question =
    (let encoding = tokenizer (response_prompt question)
     in \<lparr>kw_input_ids = Some (input_ids encoding),
         kw_attention_mask = Some (attention_mask encoding),
         kw_generation_config = Some gen_config\<rparr>)"

definition generate_response ::
  "(string \<Rightarrow> BatchEncoding) \<Rightarrow> (int list \<Rightarrow> string) \<Rightarrow> 'g \<Rightarrow>
   string \<Rightarrow> ('g generate_kwargs \<Rightarrow> tensor) \<Rightarrow> error + string" where
  "generate_response tokenizer decode gen_config question generate =
    (let outputs = generate (generate_response_kwargs tokenizer gen_config question)
     in case outputs of
          [] \<Rightarrow> Inl IndexError
        | row # _ \<Rightarrow>
            (let response = decode row;
                 answer_start = ''Answer:'';
                 response_start = find_str response answer_start
             in Inr (strip (slice_from (response_start + int (length answer_start)) response))))"

chapter \<open>Properties\<close>

section \<open>The counters of the trainable parameters\<close>

lemma count_parameters_sums:
  "count_parameters ps t a =
     (t + sum_list (map numel (filter requires_grad ps)), a + sum_list (map numel ps))"
  by (induction ps arbitrary: t a) simp_all

lemma sum_list_filter_le:
  "sum_list (map numel (filter requires_grad ps)) \<le> sum_list (map numel ps)"
  by (induction ps) simp_all

lemma print_trainable_parameters_counts:
  assumes "print_trainable_parameters ps = Inr (trainable_params, all_param, pct)"
  shows "trainable_params = sum_list (map numel (filter requires_grad ps))"
    and "all_param = sum_list (map numel ps)"
    and "trainable_params \<le> all_param"
    and "0 < all_param"
proof -
  define t where "t = sum_list (map numel (filter requires_grad ps))"
  define a where "a = sum_list (map numel ps)"
  have "count_parameters ps 0 0 = (t, a)"
    by (simp add: count_parameters_sums t_def a_def)
  with assms have res: "a \<noteq> 0" "trainable_params = t" "all_param = a"
    by (simp_all add: print_trainable_parameters_def split: if_splits)
  have le: "t \<le> a"
    unfolding t_def a_def by (rule sum_list_filter_le)
  show "trainable_params = sum_list (map numel (filter requires_grad ps))"
    using res(2) by (simp only: t_def)
  show "all_param = sum_list (map numel ps)"
    using res(3) by (simp only: a_def)
  show "trainable_params \<le> all_param"
    using res le by simp
  show "0 < all_param"
    using res by simp
qed

section \<open>Rounding of the percent boundaries\<close>

text \<open>The rounded quotient is within one half of the exact one.\<close>

lemma round_half_even_bounds:
  assumes "0 < b"
  shows "2 * a - b \<le> 2 * (b * round_half_even a b)"
    and "2 * (b * round_half_even a b) \<le> 2 * a + b"
proof -
  define q where "q = a div b"
  define r where "r = a mod b"
  have a: "a = b * q + r"
    by (simp add: q_def r_def)
  have r: "0 \<le> r" "r < b"
    using assms by (simp_all add: r_def)
  have rhe: "round_half_even a b =
      (if 2 * r < b then q else if b < 2 * r then q + 1 else if even q then q else q + 1)"
    by (simp add: round_half_even_def q_def r_def Let_def)
  have step: "b * (q + 1) = b * q + b"
    by (simp add: algebra_simps)
  show "2 * a - b \<le> 2 * (b * round_half_even a b)"
    unfolding rhe using a r by (auto simp: step)
  show "2 * (b * round_half_even a b) \<le> 2 * a + b"
    unfolding rhe using a r by (auto simp: step)
qed

text \<open>Where the exact quotient lies half way between two integers, the even one is taken.\<close>

lemma round_half_even_tie:
  assumes "0 < b" and tie: "\<bar>2 * (b * round_half_even a b) - 2 * a\<bar> = b"
  shows "even (round_half_even a b)"
proof -
  define q where "q = a div b"
  define r where "r = a mod b"
  have a: "a = b * q + r"
    by (simp add: q_def r_def)
  have r: "0 \<le> r" "r < b"
    using assms(1) by (simp_all add: r_def)
  have rhe: "round_half_even a b =
      (if 2 * r < b then q else if b < 2 * r then q + 1 else if even q then q else q + 1)"
    by (simp add: round_half_even_def q_def r_def Let_def)
  have step: "b * (q + 1) = b * q + b"
    by (simp add: algebra_simps)
  have low: "\<not> 2 * r < b"
  proof
    assume h: "2 * r < b"
    then have "round_half_even a b = q"
      by (simp add: rhe)
    with tie a r h show False
      by simp
  qed
  have high: "\<not> b < 2 * r"
  proof
    assume h: "b < 2 * r"
    then have "round_half_even a b = q + 1"
      using low by (simp add: rhe)
    with tie a r h show False
      by (simp add: step)
  qed
  from low high show ?thesis
    by (simp add: rhe)
qed

lemma pct_10: "0 \<le> n \<Longrightarrow> 0 \<le> pct_to_abs_closest 10 n \<and> pct_to_abs_closest 10 n \<le> n"
  using round_half_even_bounds [of 100 "10 * n"] by (simp add: pct_to_abs_closest_def)

lemma pct_10_pos: "6 \<le> n \<Longrightarrow> 0 < pct_to_abs_closest 10 n"
  using round_half_even_bounds [of 100 "10 * n"] by (simp add: pct_to_abs_closest_def)

lemma pct_10_one: "6 \<le> n \<Longrightarrow> n \<le> 10 \<Longrightarrow> pct_to_abs_closest 10 n = 1"
  using round_half_even_bounds [of 100 "10 * n"] by (simp add: pct_to_abs_closest_def)

lemma pct_10_zero: "0 \<le> n \<Longrightarrow> n \<le> 5 \<Longrightarrow> pct_to_abs_closest 10 n = 0"
proof (cases "n = 5")
  case True
  then show ?thesis by (simp add: pct_to_abs_closest_def round_half_even_def)
next
  case False
  assume "0 \<le> n" "n \<le> 5"
  with False show ?thesis
    using round_half_even_bounds [of 100 "10 * n"]
    by (simp add: pct_to_abs_closest_def)
qed

lemma pct_5_neg: "11 \<le> n \<Longrightarrow> pct_to_abs_closest (- 5) n < 0 \<and> 0 \<le> n + pct_to_abs_closest (- 5) n
   \<and> pct_to_abs_closest 10 n \<le> n + pct_to_abs_closest (- 5) n"
  using round_half_even_bounds [of 100 "10 * n"] round_half_even_bounds [of 100 "- 5 * n"]
  by (simp add: pct_to_abs_closest_def)

lemma pct_5_zero: "0 \<le> n \<Longrightarrow> n \<le> 10 \<Longrightarrow> pct_to_abs_closest (- 5) n = 0"
proof (cases "n = 10")
  case True
  then show ?thesis by (simp add: pct_to_abs_closest_def round_half_even_def)
next
  case False
  assume "0 \<le> n" "n \<le> 10"
  with False show ?thesis
    using round_half_even_bounds [of 100 "- 5 * n"]
    by (simp add: pct_to_abs_closest_def)
qed

lemma pct_10_tie:
  "\<bar>100 * pct_to_abs_closest 10 n - 10 * n\<bar> = 50 \<Longrightarrow> even (pct_to_abs_closest 10 n)"
  using round_half_even_tie [of 100 "10 * n"] by (simp add: pct_to_abs_closest_def)

lemma pct_5_tie:
  "\<bar>100 * pct_to_abs_closest (- 5) n + 5 * n\<bar> = 50 \<Longrightarrow> even (pct_to_abs_closest (- 5) n)"
  using round_half_even_tie [of 100 "- 5 * n"] by (simp add: pct_to_abs_closest_def)

section \<open>The two slices of the dataset\<close>

lemma train_instr:
  assumes "name2len ''train'' = Some n"
  shows "rel_to_abs_instr train_instruction name2len = Inr (0, pct_to_abs_closest 10 (int n))"
  using assms pct_10 [of "int n"]
  by (simp add: rel_to_abs_instr_def train_instruction_def Let_def)

lemma eval_instr_large:
  assumes "name2len ''train'' = Some n" and "11 \<le> n"
  shows "rel_to_abs_instr eval_instruction name2len =
           Inr (int n + pct_to_abs_closest (- 5) (int n), int n)"
  using assms pct_5_neg [of "int n"]
  by (simp add: rel_to_abs_instr_def eval_instruction_def Let_def)

lemma eval_instr_small:
  assumes "name2len ''train'' = Some n" and "n \<le> 10"
  shows "rel_to_abs_instr eval_instruction name2len = Inr (0, int n)"
  using assms pct_5_zero [of "int n"]
  by (simp add: rel_to_abs_instr_def eval_instruction_def Let_def)

lemma notebook_instructions_ordered:
  assumes "name2len ''train'' = Some n"
  shows "\<exists>f t. rel_to_abs_instr train_instruction name2len = Inr (f, t) \<and> f \<le> t"
    and "\<exists>f t. rel_to_abs_instr eval_instruction name2len = Inr (f, t) \<and> f \<le> t"
proof -
  show "\<exists>f t. rel_to_abs_instr train_instruction name2len = Inr (f, t) \<and> f \<le> t"
    using train_instr [of name2len n] assms pct_10 [of "int n"] by simp
  show "\<exists>f t. rel_to_abs_instr eval_instruction name2len = Inr (f, t) \<and> f \<le> t"
  proof (cases "11 \<le> n")
    case True
    then show ?thesis
      using eval_instr_large [of name2len n] assms pct_5_neg [of "int n"] by simp
  next
    case False
    then show ?thesis
      using eval_instr_small [of name2len n] assms by simp
  qed
qed

lemma dataset_cell_reads:
  assumes "splits ''train'' = Some rows"
    and "rel_to_abs_instr train_instruction (map_option length \<circ> splits) = Inr (f1, t1)"
    and "rel_to_abs_instr eval_instruction (map_option length \<circ> splits) = Inr (f2, t2)"
    and "f1 < t1" and "f2 < t2"
  shows "dataset_cell splits =
           Inr (take (nat (t1 - f1)) (drop (nat f1) rows), take (nat (t2 - f2)) (drop (nat f2) rows))"
proof -
  have names: "splitname train_instruction = ''train''" "splitname eval_instruction = ''train''"
    by (simp_all add: train_instruction_def eval_instruction_def)
  have r0: "read_instruction splits train_instruction = Inr (take (nat (t1 - f1)) (drop (nat f1) rows))"
    using assms(1,2,4) by (simp add: read_instruction_def names)
  have r1: "read_instruction splits eval_instruction = Inr (take (nat (t2 - f2)) (drop (nat f2) rows))"
    using assms(1,3,5) by (simp add: read_instruction_def names)
  have "load_dataset splits dataset_split =
      Inr [take (nat (t1 - f1)) (drop (nat f1) rows), take (nat (t2 - f2)) (drop (nat f2) rows)]"
    by (simp add: dataset_split_def r0 r1)
  then show ?thesis
    by (simp add: dataset_cell_def)
qed

lemma dataset_cell_no_training_rows:
  assumes "splits ''train'' = Some rows"
    and "rel_to_abs_instr train_instruction (map_option length \<circ> splits) = Inr (f1, t1)"
    and "t1 \<le> f1"
  shows "dataset_cell splits = Inl ValueError"
proof -
  have name: "splitname train_instruction = ''train''"
    by (simp add: train_instruction_def)
  have "read_instruction splits train_instruction = Inl ValueError"
    using assms by (simp add: read_instruction_def name)
  then have "load_dataset splits dataset_split = Inl ValueError"
    by (simp add: dataset_split_def)
  then show ?thesis
    by (simp add: dataset_cell_def)
qed

text \<open>
  Claim C10 as stated fails on a split of ten records: ten percent of ten is one record,
  five percent of ten is one half, which rounds to the even neighbour zero, and a lower
  boundary of zero is the start of the split. The training slice is the index range
  from 0 to 1, the evaluation slice the whole split from 0 to 10, and record 0 is in
  both.
\<close>

theorem dataset_cell_ten_rows_overlap:
  "dataset_cell [''train'' \<mapsto> [0, 1, 2, 3, 4, 5, 6, 7, 8, 9 :: nat]] =
     Inr ([0], [0, 1, 2, 3, 4, 5, 6, 7, 8, 9])
   \<and> rel_to_abs_instr train_instruction [''train'' \<mapsto> 10] = Inr (0, 1)
   \<and> rel_to_abs_instr eval_instruction [''train'' \<mapsto> 10] = Inr (0, 10)
   \<and> (0 :: int) \<in> {0..<1} \<inter> {0..<10}"
proof -
  let ?rows = "[0, 1, 2, 3, 4, 5, 6, 7, 8, 9 :: nat]"
  let ?splits = "[''train'' \<mapsto> ?rows]"
  have p10: "pct_to_abs_closest 10 10 = 1"
    by (simp add: pct_to_abs_closest_def round_half_even_def)
  have p5: "pct_to_abs_closest (- 5) 10 = 0"
    by (simp add: pct_to_abs_closest_def round_half_even_def)
  have tr: "rel_to_abs_instr train_instruction [''train'' \<mapsto> 10] = Inr (0, 1)"
    by (simp add: rel_to_abs_instr_def train_instruction_def p10)
  have ev: "rel_to_abs_instr eval_instruction [''train'' \<mapsto> 10] = Inr (0, 10)"
    by (simp add: rel_to_abs_instr_def eval_instruction_def p5)
  have len: "map_option length \<circ> ?splits = [''train'' \<mapsto> 10]"
    by (rule ext) simp
  have train: "?splits ''train'' = Some ?rows"
    by simp
  have "dataset_cell ?splits = Inr (take (nat (1 - 0)) (drop (nat 0) ?rows),
                                    take (nat (10 - 0)) (drop (nat 0) ?rows))"
    using train tr ev unfolding len [symmetric] by (rule dataset_cell_reads) simp_all
  then have cell: "dataset_cell ?splits = Inr ([0], ?rows)"
    by simp
  have "(0 :: int) \<in> {0..<1} \<inter> {0..<10}"
    by simp
  with cell tr ev show ?thesis
    by blast
qed

text \<open>
  Claim C10, amended. Let \<open>n\<close> be the number of records of the split \<^verbatim>\<open>train\<close>, fewer
  than \<open>2 ^ 48\<close>. The upper boundary \<open>a\<close> of the training slice is ten percent of \<open>n\<close>
  rounded to the closest index: \<open>100 * a\<close> is within 50 of \<open>10 * n\<close>, and where it is
  exactly 50 away, \<open>a\<close> is even.

  When \<open>n\<close> is at least 11, the training set is the first \<open>a\<close> records and is not empty,
  and the evaluation set is the records from index \<open>b\<close> on, where \<open>n - b\<close> is five percent of
  \<open>n\<close> rounded in the same way and is not zero; the two index ranges are disjoint, and the
  source is the training set, then the records between the two, then the evaluation
  set, so each keeps the source's order.

  When \<open>n\<close> is between 6 and 10, the training set is the first record and the evaluation
  set is the whole split. When \<open>n\<close> is at most 5, the training slice has no rows and the
  cell raises \<^verbatim>\<open>ValueError\<close>.
\<close>

theorem dataset_cell_split:
  assumes train: "splits ''train'' = Some rows"
    and size: "length rows < 2 ^ 48"
  shows
   "(let n = int (length rows);
         a = nat (pct_to_abs_closest 10 n);
         b = nat (n + pct_to_abs_closest (- 5) n)
     in rel_to_abs_instr train_instruction (map_option length \<circ> splits) = Inr (0, int a)
        \<and> \<bar>100 * int a - 10 * n\<bar> \<le> 50
        \<and> (\<bar>100 * int a - 10 * n\<bar> = 50 \<longrightarrow> even a)
        \<and> (11 \<le> n \<longrightarrow>
             rel_to_abs_instr eval_instruction (map_option length \<circ> splits) = Inr (int b, n)
             \<and> dataset_cell splits = Inr (take a rows, drop b rows)
             \<and> \<bar>100 * (n - int b) - 5 * n\<bar> \<le> 50
             \<and> (\<bar>100 * (n - int b) - 5 * n\<bar> = 50 \<longrightarrow> even (n - int b))
             \<and> 0 < a \<and> a \<le> b \<and> b < length rows
             \<and> {0..<a} \<inter> {b..<length rows} = {}
             \<and> rows = take a rows @ take (b - a) (drop a rows) @ drop b rows)
        \<and> (6 \<le> n \<and> n \<le> 10 \<longrightarrow>
             rel_to_abs_instr eval_instruction (map_option length \<circ> splits) = Inr (0, n)
             \<and> a = 1
             \<and> dataset_cell splits = Inr (take 1 rows, rows))
        \<and> (n \<le> 5 \<longrightarrow> a = 0 \<and> dataset_cell splits = Inl ValueError))"
proof -
  define n where "n = int (length rows)"
  define a where "a = nat (pct_to_abs_closest 10 n)"
  define b where "b = nat (n + pct_to_abs_closest (- 5) n)"
  have len: "(map_option length \<circ> splits) ''train'' = Some (length rows)"
    using train by simp
  have n0: "0 \<le> n"
    by (simp add: n_def)
  have a_int: "int a = pct_to_abs_closest 10 n"
    using pct_10 [OF n0] by (simp add: a_def)
  have tr: "rel_to_abs_instr train_instruction (map_option length \<circ> splits) = Inr (0, int a)"
    using train_instr [of "map_option length \<circ> splits" "length rows"] len
    by (simp add: a_int n_def)
  have a_close: "\<bar>100 * int a - 10 * n\<bar> \<le> 50"
    using round_half_even_bounds [of 100 "10 * n"]
    by (simp add: a_int pct_to_abs_closest_def)
  have a_tie: "even a" if "\<bar>100 * int a - 10 * n\<bar> = 50"
  proof -
    have "even (pct_to_abs_closest 10 n)"
      using that pct_10_tie [of n] by (simp add: a_int)
    then have "even (int a)"
      by (simp only: a_int)
    then show ?thesis
      by simp
  qed
  have large: "rel_to_abs_instr eval_instruction (map_option length \<circ> splits) = Inr (int b, n)
      \<and> dataset_cell splits = Inr (take a rows, drop b rows)
      \<and> \<bar>100 * (n - int b) - 5 * n\<bar> \<le> 50
      \<and> (\<bar>100 * (n - int b) - 5 * n\<bar> = 50 \<longrightarrow> even (n - int b))
      \<and> 0 < a \<and> a \<le> b \<and> b < length rows
      \<and> {0..<a} \<inter> {b..<length rows} = {}
      \<and> rows = take a rows @ take (b - a) (drop a rows) @ drop b rows" if big: "11 \<le> n"
  proof -
    have p5: "pct_to_abs_closest (- 5) n < 0" "0 \<le> n + pct_to_abs_closest (- 5) n"
      "pct_to_abs_closest 10 n \<le> n + pct_to_abs_closest (- 5) n"
      using pct_5_neg [OF big] by simp_all
    have b_int: "int b = n + pct_to_abs_closest (- 5) n"
      using p5 by (simp add: b_def)
    have big': "11 \<le> length rows"
      using big by (simp add: n_def)
    have ev: "rel_to_abs_instr eval_instruction (map_option length \<circ> splits) = Inr (int b, n)"
      using eval_instr_large [of "map_option length \<circ> splits" "length rows"] len big'
      by (simp add: b_int n_def)
    have a_pos: "0 < a"
      using pct_10_pos [of n] big a_int by linarith
    have ab: "a \<le> b"
      using p5(3) a_int b_int by linarith
    have bn: "b < length rows"
      using p5(1) b_int n_def by linarith
    have "dataset_cell splits =
        Inr (take (nat (int a - 0)) (drop (nat 0) rows), take (nat (n - int b)) (drop (nat (int b)) rows))"
    proof (rule dataset_cell_reads [OF train tr ev])
      show "0 < int a" using a_pos by simp
      show "int b < n" using bn by (simp add: n_def)
    qed
    then have cell: "dataset_cell splits = Inr (take a rows, drop b rows)"
      using bn by (simp add: n_def)
    have b_close: "\<bar>100 * (n - int b) - 5 * n\<bar> \<le> 50"
      using round_half_even_bounds [of 100 "- 5 * n"]
      by (simp add: b_int pct_to_abs_closest_def)
    have b_tie: "even (n - int b)" if "\<bar>100 * (n - int b) - 5 * n\<bar> = 50"
    proof -
      have "\<bar>100 * pct_to_abs_closest (- 5) n + 5 * n\<bar> = 50"
        using that by (simp add: b_int)
      then have "even (pct_to_abs_closest (- 5) n)"
        by (rule pct_5_tie)
      then show ?thesis
        by (simp add: b_int)
    qed
    have disj: "{0..<a} \<inter> {b..<length rows} = {}"
      using ab by auto
    have "take a rows @ take (b - a) (drop a rows) = take b rows"
      using ab by (metis add_diff_inverse_nat not_less take_add)
    then have cat: "rows = take a rows @ take (b - a) (drop a rows) @ drop b rows"
      by (metis append_assoc append_take_drop_id)
    show ?thesis
      using ev cell b_close b_tie a_pos ab bn disj cat by blast
  qed
  have middle: "rel_to_abs_instr eval_instruction (map_option length \<circ> splits) = Inr (0, n)
      \<and> a = 1
      \<and> dataset_cell splits = Inr (take 1 rows, rows)" if few: "6 \<le> n \<and> n \<le> 10"
  proof -
    have few': "length rows \<le> 10"
      using few by (simp add: n_def)
    have ev: "rel_to_abs_instr eval_instruction (map_option length \<circ> splits) = Inr (0, n)"
      using eval_instr_small [of "map_option length \<circ> splits" "length rows"] len few'
      by (simp add: n_def)
    have a1: "a = 1"
      using pct_10_one [of n] few by (simp add: a_def)
    have "dataset_cell splits =
        Inr (take (nat (int a - 0)) (drop (nat 0) rows), take (nat (n - 0)) (drop (nat 0) rows))"
    proof (rule dataset_cell_reads [OF train tr ev])
      show "0 < int a" using a1 by simp
      show "0 < n" using few by simp
    qed
    then have "dataset_cell splits = Inr (take 1 rows, rows)"
      by (simp add: a1 n_def)
    with ev a1 show ?thesis by simp
  qed
  have tiny: "a = 0 \<and> dataset_cell splits = Inl ValueError" if few: "n \<le> 5"
  proof -
    have a0: "a = 0"
      using pct_10_zero [OF n0 few] by (simp add: a_def)
    have "dataset_cell splits = Inl ValueError"
    proof (rule dataset_cell_no_training_rows [OF train tr])
      show "int a \<le> 0" using a0 by simp
    qed
    with a0 show ?thesis by simp
  qed
  show ?thesis
    unfolding Let_def
    using tr a_close a_tie large middle tiny
    unfolding n_def a_def b_def
    by blast
qed

theorem dataset_cell_split_witness:
  "(let rows = [0, 1, 2, 3, 4, 5, 6, 7, 8, 9, 10, 11, 12, 13, 14, 15, 16, 17, 18, 19, 20, 21, 22, 23, 24 :: nat]
    in [''train'' \<mapsto> rows] ''train'' = Some rows
       \<and> length rows < 2 ^ 48
       \<and> 11 \<le> int (length rows)
       \<and> \<bar>100 * int 2 - 10 * int (length rows)\<bar> = 50
       \<and> dataset_cell [''train'' \<mapsto> rows] = Inr ([0, 1], [24]))
   \<and> (let rows = [0, 1, 2, 3, 4, 5, 6, 7 :: nat]
      in [''train'' \<mapsto> rows] ''train'' = Some rows
         \<and> length rows < 2 ^ 48
         \<and> 6 \<le> int (length rows) \<and> int (length rows) \<le> 10
         \<and> dataset_cell [''train'' \<mapsto> rows] = Inr ([0], rows))
   \<and> (let rows = [0, 1, 2, 3, 4 :: nat]
      in [''train'' \<mapsto> rows] ''train'' = Some rows
         \<and> length rows < 2 ^ 48
         \<and> int (length rows) \<le> 5
         \<and> dataset_cell [''train'' \<mapsto> rows] = (Inl ValueError :: error + nat list \<times> nat list))"
proof -
  let ?r25 = "[0, 1, 2, 3, 4, 5, 6, 7, 8, 9, 10, 11, 12, 13, 14, 15, 16, 17, 18, 19, 20, 21, 22, 23, 24 :: nat]"
  let ?r8 = "[0, 1, 2, 3, 4, 5, 6, 7 :: nat]"
  let ?r5 = "[0, 1, 2, 3, 4 :: nat]"
  have p10: "pct_to_abs_closest 10 25 = 2"
    by (simp add: pct_to_abs_closest_def round_half_even_def)
  have p5: "pct_to_abs_closest (- 5) 25 = - 1"
    by (simp add: pct_to_abs_closest_def round_half_even_def)
  have t25: "[''train'' \<mapsto> ?r25] ''train'' = Some ?r25"
    and t8: "[''train'' \<mapsto> ?r8] ''train'' = Some ?r8"
    and t5: "[''train'' \<mapsto> ?r5] ''train'' = Some ?r5"
    by simp_all
  have l25: "int (length ?r25) = 25" and l8: "int (length ?r8) = 8" and l5: "int (length ?r5) = 5"
    by simp_all
  have s25: "length ?r25 < 2 ^ 48" and s8: "length ?r8 < 2 ^ 48" and s5: "length ?r5 < 2 ^ 48"
    by simp_all
  have big: "11 \<le> int (length ?r25)"
    and mid: "6 \<le> int (length ?r8) \<and> int (length ?r8) \<le> 10"
    and few: "int (length ?r5) \<le> 5"
    by simp_all
  have tie: "\<bar>100 * int 2 - 10 * int (length ?r25)\<bar> = 50"
    by simp
  have "dataset_cell [''train'' \<mapsto> ?r25] =
      Inr (take (nat (pct_to_abs_closest 10 (int (length ?r25)))) ?r25,
           drop (nat (int (length ?r25) + pct_to_abs_closest (- 5) (int (length ?r25)))) ?r25)"
    using dataset_cell_split [of "[''train'' \<mapsto> ?r25]" ?r25, unfolded Let_def] t25 s25 big
    by blast
  then have c25: "dataset_cell [''train'' \<mapsto> ?r25] = Inr ([0, 1], [24])"
    unfolding l25 p10 p5 by simp
  have c8: "dataset_cell [''train'' \<mapsto> ?r8] = Inr (take 1 ?r8, ?r8)"
    using dataset_cell_split [of "[''train'' \<mapsto> ?r8]" ?r8, unfolded Let_def] t8 s8 mid
    by blast
  have c5: "dataset_cell [''train'' \<mapsto> ?r5] = Inl ValueError"
    using dataset_cell_split [of "[''train'' \<mapsto> ?r5]" ?r5, unfolded Let_def] t5 s5 few
    by blast
  from c8 have c8': "dataset_cell [''train'' \<mapsto> ?r8] = Inr ([0], ?r8)"
    by simp
  from t25 s25 big tie c25 t8 s8 mid c8' t5 s5 few c5 show ?thesis
    unfolding Let_def by blast
qed

section \<open>What the two configuration cells change\<close>

lemma setattr_store:
  "store (setattr a upd s) = (store s)(a := upd (store s a))"
  by (simp add: setattr_def)

lemma setattr_globals:
  "model_generation_config (setattr a upd s) = model_generation_config s"
  "orig_model_generation_config (setattr a upd s) = orig_model_generation_config s"
  "tokenizer_eos_token_id (setattr a upd s) = tokenizer_eos_token_id s"
  "generation_config (setattr a upd s) = generation_config s"
  "generation_config_temperature (setattr a upd s) = generation_config_temperature s"
  "generation_config_eod_token_id (setattr a upd s) = generation_config_eod_token_id s"
  "orig_generation_config (setattr a upd s) = orig_generation_config s"
  "orig_generation_config_temperature (setattr a upd s) = orig_generation_config_temperature s"
  "orig_generation_config_eod_token_id (setattr a upd s) = orig_generation_config_eod_token_id s"
  by (simp_all add: setattr_def)

lemma generation_config_cell_store:
  "store (generation_config_cell s) =
    (store s)(model_generation_config s :=
      (store s (model_generation_config s))
        \<lparr>max_new_tokens := Some 50, top_p := 7 / 10, num_return_sequences := 1,
         pad_token_id := tokenizer_eos_token_id s, repetition_penalty := 11 / 10\<rparr>)"
  by (simp add: generation_config_cell_def setattr_def Let_def)

lemma orig_generation_config_cell_store:
  "store (orig_generation_config_cell s) =
    (store s)(orig_model_generation_config s :=
      (store s (orig_model_generation_config s))
        \<lparr>max_new_tokens := Some 50, top_p := 7 / 10, num_return_sequences := 1,
         pad_token_id := tokenizer_eos_token_id s, repetition_penalty := 11 / 10\<rparr>)"
  by (simp add: orig_generation_config_cell_def setattr_def Let_def)

lemma generation_config_cell_variables:
  "generation_config (generation_config_cell s) = Some (model_generation_config s)"
  "generation_config_temperature (generation_config_cell s) = Some (7 / 10)"
  "generation_config_eod_token_id (generation_config_cell s) = Some (tokenizer_eos_token_id s)"
  by (simp_all add: generation_config_cell_def setattr_def Let_def)

lemma orig_generation_config_cell_variables:
  "orig_generation_config (orig_generation_config_cell s) = Some (orig_model_generation_config s)"
  "orig_generation_config_temperature (orig_generation_config_cell s) = Some (7 / 10)"
  "orig_generation_config_eod_token_id (orig_generation_config_cell s) =
     Some (tokenizer_eos_token_id s)"
  by (simp_all add: orig_generation_config_cell_def setattr_def Let_def)

text \<open>
  Claim C9. The inference-configuration step sets exactly the fields
  \<open>max_new_tokens\<close>, \<open>top_p\<close>, \<open>num_return_sequences\<close>, \<open>pad_token_id\<close> and
  \<open>repetition_penalty\<close> of the model's generation configuration: after the cell the store
  differs from the one before only at the model's configuration object, and that object
  is the old one with these five fields updated, so every other field, the sampling
  temperature and the end-of-sequence token id among them, keeps its loaded value. The
  assignments to \<^verbatim>\<open>generation_config_temperature\<close> and
  \<^verbatim>\<open>generation_config_eod_token_id\<close> bind two global variables instead. The same holds
  of the cell for the original model and its object.
\<close>

theorem generation_config_cells_frame:
  fixes s :: "'m namespace"
  defines "a \<equiv> model_generation_config s"
    and "b \<equiv> orig_model_generation_config s"
    and "s' \<equiv> generation_config_cell s"
    and "t' \<equiv> orig_generation_config_cell s"
  shows
   "store s' = (store s)(a := (store s a)
        \<lparr>max_new_tokens := Some 50, top_p := 7 / 10, num_return_sequences := 1,
         pad_token_id := tokenizer_eos_token_id s, repetition_penalty := 11 / 10\<rparr>)
    \<and> temperature (store s' a) = temperature (store s a)
    \<and> eos_token_id (store s' a) = eos_token_id (store s a)
    \<and> GenerationConfig.more (store s' a) = GenerationConfig.more (store s a)
    \<and> generation_config_temperature s' = Some (7 / 10)
    \<and> generation_config_eod_token_id s' = Some (tokenizer_eos_token_id s)
    \<and> store t' = (store s)(b := (store s b)
        \<lparr>max_new_tokens := Some 50, top_p := 7 / 10, num_return_sequences := 1,
         pad_token_id := tokenizer_eos_token_id s, repetition_penalty := 11 / 10\<rparr>)
    \<and> temperature (store t' b) = temperature (store s b)
    \<and> eos_token_id (store t' b) = eos_token_id (store s b)
    \<and> GenerationConfig.more (store t' b) = GenerationConfig.more (store s b)
    \<and> orig_generation_config_temperature t' = Some (7 / 10)
    \<and> orig_generation_config_eod_token_id t' = Some (tokenizer_eos_token_id s)"
  unfolding a_def b_def s'_def t'_def
  by (simp add: generation_config_cell_store orig_generation_config_cell_store
      generation_config_cell_variables orig_generation_config_cell_variables)

section \<open>Which tensor goes under which keyword\<close>

lemma generate_response_kwargs_paired:
  "kw_input_ids (generate_response_kwargs tokenizer gen_config question) =
     Some (input_ids (tokenizer (response_prompt question)))
   \<and> kw_attention_mask (generate_response_kwargs tokenizer gen_config question) =
     Some (attention_mask (tokenizer (response_prompt question)))"
  by (simp add: generate_response_kwargs_def Let_def)

lemma prompt_cell_kwargs_input_ids:
  "kw_input_ids (prompt_cell_kwargs tokenizer gen_config) = Some (attention_mask (tokenizer prompt))
   \<and> kw_attention_mask (prompt_cell_kwargs tokenizer gen_config) = None"
  by (simp add: prompt_cell_kwargs_def Let_def)

lemma prompt_value:
  "prompt = ''Answer this question truthfully:'' @
            CHR 0x0A # ''What are the treatments for ARDS?'' @
            CHR 0x0A # ''---'' @ CHR 0x0A # ''Answer:''"
  by (simp add: prompt_def strip_def isspace_def)

text \<open>
  Claim C7 says that every call of generation passes the tokenizer's token ids as
  \<^verbatim>\<open>input_ids\<close> and its attention mask as \<^verbatim>\<open>attention_mask\<close>. The prompt cell does not:
  for a tokenizer that encodes the prompt as the token ids \<open>[[204, 3, 17]]\<close> with the
  mask \<open>[[1, 1, 1]]\<close>, the call receives the mask \<open>[[1, 1, 1]]\<close> as its \<^verbatim>\<open>input_ids\<close>,
  which is not the token-id tensor, and no \<^verbatim>\<open>attention_mask\<close> at all.
\<close>

theorem prompt_cell_passes_mask_as_input_ids:
  "(let tokenizer = (\<lambda>_. \<lparr>input_ids = [[204, 3, 17]], attention_mask = [[1, 1, 1]]\<rparr>);
        kw = prompt_cell_kwargs tokenizer gen_config
    in kw_input_ids kw = Some [[1, 1, 1]]
       \<and> kw_input_ids kw \<noteq> Some (input_ids (tokenizer prompt))
       \<and> kw_attention_mask kw = None)"
  by (simp add: prompt_cell_kwargs_def Let_def)

end
